theory Spec2Isabelle
  imports Complex_Main
begin

section \<open>The uvPin utility of \<^verbatim>\<open>utils/uv_pin.py\<close>\<close>

text \<open>
  \<^verbatim>\<open>make_uv_pin\<close> is a straight-line script over the host application's command
  module \<^verbatim>\<open>maya.cmds\<close>. The host is not part of the repository, so it enters the
  model as a parameter: a record \<open>cmds\<close> with one field for every command whose answer
  the script reads. The scene graph is represented by the history of the mutating
  commands issued so far (in the order they were issued); each answer of the host is a
  function of that history and of the command's arguments. The script's behaviour is
  its result (the returned name, or the fault that ended it) together with the history
  it leaves behind, which is kept on a fault as well, since nothing is rolled back.

  Queries (\<^verbatim>\<open>listRelatives\<close>, \<^verbatim>\<open>getAttr\<close>, \<^verbatim>\<open>objectType\<close>, \<^verbatim>\<open>listConnections\<close>) are
  not part of the history: they change nothing. Every host command is taken to answer;
  a fault that the host itself would raise inside a command (an unknown node name, a
  refused connection) is not a branch of the script and is not modelled. The faults of
  the model are the ones the script's own text produces.
\<close>

subsection \<open>Faults\<close>

text \<open>
  \<open>HostError\<close> is \<^verbatim>\<open>cmds.error(msg)\<close>, the host's fatal-error command, which ends
  the script; \<open>RuntimeError\<close> is the script's own \<^verbatim>\<open>raise RuntimeError(msg)\<close>;
  \<open>IndexError\<close> is Python's fault for a subscript past the end of a list.
\<close>

datatype error = HostError string | RuntimeError string | IndexError

subsection \<open>Mutating host commands\<close>

text \<open>
  One constructor for each mutating command, with the arguments the script passes:
  \<^item> \<open>Duplicate n\<close>: \<^verbatim>\<open>cmds.duplicate(n)\<close>;
  \<^item> \<open>Parent c p\<close>: \<^verbatim>\<open>cmds.parent(c, p, shape=True, relative=True)\<close>;
  \<^item> \<open>Delete n\<close>: \<^verbatim>\<open>cmds.delete(n)\<close>;
  \<^item> \<open>Rename n m\<close>: \<^verbatim>\<open>cmds.rename(n, m)\<close>;
  \<^item> \<open>ConnectAttr s d f\<close>: \<^verbatim>\<open>cmds.connectAttr(s, d)\<close>, with \<^verbatim>\<open>force=True\<close> when \<open>f\<close>;
  \<^item> \<open>CreateNode t n\<close>: \<^verbatim>\<open>cmds.createNode(t, name=n)\<close>;
  \<^item> \<open>Xform n t r\<close>: \<^verbatim>\<open>cmds.xform(n, translation=t, rotation=r)\<close>;
  \<^item> \<open>SetAttr a k\<close>: \<^verbatim>\<open>cmds.setAttr(a, k)\<close>;
  \<^item> \<open>SetAttrFloat2 a x y\<close>: \<^verbatim>\<open>cmds.setAttr(a, x, y, type="float2")\<close>.
  The coordinates are only handed on to the host, never computed with, so their type is
  a parameter \<open>'n\<close>.
\<close>

datatype 'n call =
    Duplicate string
  | Parent string string
  | Delete string
  | Rename string string
  | ConnectAttr string string bool
  | CreateNode string string
  | Xform string "int list" "int list"
  | SetAttr string int
  | SetAttrFloat2 string 'n 'n

subsection \<open>The host's answers\<close>

text \<open>
  The first argument of every field is the history at the moment of the call.
  \<^verbatim>\<open>listRelatives\<close> (with \<^verbatim>\<open>children=True, shapes=True\<close>) and \<^verbatim>\<open>listConnections\<close>
  (with \<^verbatim>\<open>plugs=True, connections=True, destination=True\<close>) answer a list or
  \<^verbatim>\<open>None\<close>; \<^verbatim>\<open>getAttr\<close> is only read for the boolean attribute
  \<^verbatim>\<open>.intermediateObject\<close>; \<^verbatim>\<open>duplicate\<close> answers the list of new nodes,
  \<^verbatim>\<open>rename\<close> and \<^verbatim>\<open>createNode\<close> the name the host gave.
\<close>

record 'n cmds =
  listRelatives :: "'n call list \<Rightarrow> string \<Rightarrow> string list option"
  getAttr :: "'n call list \<Rightarrow> string \<Rightarrow> bool"
  objectType :: "'n call list \<Rightarrow> string \<Rightarrow> string"
  duplicate :: "'n call list \<Rightarrow> string \<Rightarrow> string list"
  rename :: "'n call list \<Rightarrow> string \<Rightarrow> string \<Rightarrow> string"
  listConnections :: "'n call list \<Rightarrow> string \<Rightarrow> string list option"
  createNode :: "'n call list \<Rightarrow> string \<Rightarrow> string \<Rightarrow> string"

subsection \<open>Arguments\<close>

text \<open>
  The parameters of \<^verbatim>\<open>make_uv_pin\<close>, under their own names; \<open>normalize_flag\<close> is the
  parameter \<^verbatim>\<open>normalize\<close>. An axis argument is \<open>None\<close> when it is omitted.
\<close>

record 'n pin_args =
  object_to_pin :: string
  surface :: string
  u :: 'n
  v :: 'n
  local_space :: bool
  normalize_flag :: bool
  normal_axis :: "string option"
  tangent_axis :: "string option"
  reset_transforms :: bool

text \<open>The call \<^verbatim>\<open>make_uv_pin(obj, srf)\<close>, every optional argument at its default.\<close>

definition default_args :: "string \<Rightarrow> string \<Rightarrow> ('n::zero) pin_args" where
  "default_args obj srf =
     \<lparr>object_to_pin = obj, surface = srf, u = 0, v = 0, local_space = False,
      normalize_flag = False, normal_axis = None, tangent_axis = None,
      reset_transforms = True\<rparr>"

type_synonym 'n outcome = "(error + string) \<times> 'n call list"

subsection \<open>Lines 32 to 51: the surface's shapes\<close>

text \<open>\<^verbatim>\<open>cmds.getAttr(f"{s}.intermediateObject")\<close>, read before any mutation.\<close>

definition intermediate :: "'n cmds \<Rightarrow> string \<Rightarrow> bool" where
  "intermediate h s = getAttr h [] (s @ ''.intermediateObject'')"

text \<open>
  \<^verbatim>\<open>next((s for s in xs if p(s)), d)\<close>: the first element that satisfies \<open>p\<close>, or the
  default. With the default \<^verbatim>\<open>None\<close> it is \<^const>\<open>find\<close>.
\<close>

definition next_where :: "('a \<Rightarrow> bool) \<Rightarrow> 'a list \<Rightarrow> 'a \<Rightarrow> 'a" where
  "next_where p xs d = (case find p xs of Some x \<Rightarrow> x | None \<Rightarrow> d)"

text \<open>The triple is \<^verbatim>\<open>(attr_input, attr_world, attr_output)\<close>.\<close>

definition surface_attrs :: "string \<Rightarrow> error + string \<times> string \<times> string" where
  "surface_attrs surface_type =
     (if surface_type = ''mesh'' then Inr (''.inMesh'', ''.worldMesh[0]'', ''.outMesh'')
      else if surface_type = ''nurbsSurface'' then Inr (''.create'', ''.worldSpace[0]'', ''.local'')
      else Inl (HostError (''Unsupported surface type: '' @ surface_type)))"

text \<open>
  Only queries, so the history stays empty. The answer is
  \<^verbatim>\<open>(primary_shape, shape_origin, attr_input, attr_world, attr_output)\<close>.
\<close>

definition resolve_surface ::
  "'n cmds \<Rightarrow> string \<Rightarrow> error + string \<times> string option \<times> string \<times> string \<times> string" where
  "resolve_surface h srf =
     (case (case listRelatives h [] srf of None \<Rightarrow> [] | Some l \<Rightarrow> l) of
        [] \<Rightarrow> Inl (HostError (''No shape nodes found on surface: '' @ srf))
      | first_shape # more_shapes \<Rightarrow>
          (let shapes = first_shape # more_shapes;
               primary_shape = next_where (\<lambda>s. \<not> intermediate h s) shapes first_shape;
               shape_origin = find (intermediate h) shapes;
               surface_type = objectType h [] primary_shape
           in case surface_attrs surface_type of
                Inl e \<Rightarrow> Inl e
              | Inr (attr_input, attr_world, attr_output) \<Rightarrow>
                  Inr (primary_shape, shape_origin, attr_input, attr_world, attr_output)))"

subsection \<open>Lines 54 to 69: the intermediate shape\<close>

text \<open>Lines 55 to 69, the body of \<^verbatim>\<open>if shape_origin is None\<close>.\<close>

definition create_intermediate ::
  "'n cmds \<Rightarrow> string \<Rightarrow> string \<Rightarrow> string \<Rightarrow> string \<Rightarrow> 'n call list \<Rightarrow> 'n outcome" where
  "create_intermediate h srf primary_shape attr_input attr_world log0 =
     (let log1 = log0 @ [Duplicate primary_shape] in
      case duplicate h log0 primary_shape of
        [] \<Rightarrow> (Inl IndexError, log1)
      | duplicated # _ \<Rightarrow>
          (case (case listRelatives h log1 duplicated of None \<Rightarrow> [] | Some l \<Rightarrow> l) of
             [] \<Rightarrow> (Inl (HostError ''Could not create intermediate shape.''), log1)
           | shape_origin0 # _ \<Rightarrow>
               (let log2 = log1 @ [Parent shape_origin0 srf, Delete duplicated];
                    new_name = primary_shape @ ''Orig'';
                    shape_origin = rename h log2 shape_origin0 new_name;
                    log3 = log2 @ [Rename shape_origin0 new_name];
                    in_conn = (case listConnections h log3 (primary_shape @ attr_input) of
                                 None \<Rightarrow> [] | Some l \<Rightarrow> l);
                    finish = [ConnectAttr (shape_origin @ attr_world) (primary_shape @ attr_input) True,
                              SetAttr (shape_origin @ ''.intermediateObject'') 1]
                in case in_conn of
                     [] \<Rightarrow> (Inr shape_origin, log3 @ finish)
                   | [_] \<Rightarrow> (Inl IndexError, log3)
                   | _ # src # _ \<Rightarrow>
                       (Inr shape_origin,
                        log3 @ ConnectAttr src (shape_origin @ attr_input) False # finish))))"

definition ensure_intermediate ::
  "'n cmds \<Rightarrow> string \<Rightarrow> string \<Rightarrow> string option \<Rightarrow> string \<Rightarrow> string \<Rightarrow> 'n outcome" where
  "ensure_intermediate h srf primary_shape shape_origin attr_input attr_world =
     (case shape_origin of
        None \<Rightarrow> create_intermediate h srf primary_shape attr_input attr_world []
      | Some s \<Rightarrow> (Inr s, []))"

subsection \<open>Lines 77 to 111: the two axis chains\<close>

text \<open>\<^verbatim>\<open>raise RuntimeError(f"{axis} isn't a valid axis, it should be x y z -x -y -z")\<close>\<close>

definition axis_fault :: "string \<Rightarrow> error" where
  "axis_fault s = RuntimeError (s @ '' isn't a valid axis, it should be x y z -x -y -z'')"

definition normal_axis_enum :: "string option \<Rightarrow> error + int" where
  "normal_axis_enum ax =
     (case ax of
        None \<Rightarrow> Inr 1
      | Some s \<Rightarrow>
          if s = [] then Inr 1
          else if s = ''x'' then Inr 0
          else if s = ''y'' then Inr 1
          else if s = ''z'' then Inr 2
          else if s = ''-x'' then Inr 3
          else if s = ''-y'' then Inr 4
          else if s = ''-z'' then Inr 5
          else Inl (axis_fault s))"

definition tangent_axis_enum :: "string option \<Rightarrow> error + int" where
  "tangent_axis_enum ax =
     (case ax of
        None \<Rightarrow> Inr 0
      | Some s \<Rightarrow>
          if s = [] then Inr 0
          else if s = ''x'' then Inr 0
          else if s = ''y'' then Inr 1
          else if s = ''z'' then Inr 2
          else if s = ''-x'' then Inr 3
          else if s = ''-y'' then Inr 4
          else if s = ''-z'' then Inr 5
          else Inl (axis_fault s))"

subsection \<open>Lines 72 to 125: creating, connecting and configuring the pin\<close>

definition create_and_connect ::
  "'n cmds \<Rightarrow> 'n pin_args \<Rightarrow> string \<Rightarrow> string \<Rightarrow> string \<Rightarrow> string \<Rightarrow> 'n call list \<Rightarrow> 'n outcome" where
  "create_and_connect h a primary_shape shape_origin attr_world attr_output log0 =
     (let uv_pin = createNode h log0 ''uvPin'' (object_to_pin a @ ''_uvPin'');
          log1 = log0 @
            [CreateNode ''uvPin'' (object_to_pin a @ ''_uvPin''),
             ConnectAttr (primary_shape @ attr_world) (uv_pin @ ''.deformedGeometry'') False,
             ConnectAttr (shape_origin @ attr_output) (uv_pin @ ''.originalGeometry'') False,
             Xform (object_to_pin a) [0, 0, 0] [0, 0, 0]]
      in case normal_axis_enum (normal_axis a) of
           Inl e \<Rightarrow> (Inl e, log1)
         | Inr n \<Rightarrow>
             (let log2 = log1 @ [SetAttr (uv_pin @ ''.normalAxis'') n]
              in case tangent_axis_enum (tangent_axis a) of
                   Inl e \<Rightarrow> (Inl e, log2)
                 | Inr t \<Rightarrow>
                     (Inr uv_pin,
                      log2 @
                      [SetAttr (uv_pin @ ''.tangentAxis'') t,
                       SetAttr (uv_pin @ ''.normalizedIsoParms'') 0,
                       SetAttrFloat2 (uv_pin @ ''.coordinate[0]'') (u a) (v a),
                       ConnectAttr (uv_pin @ ''.outputMatrix[0]'')
                         (object_to_pin a @ ''.offsetParentMatrix'') False] @
                      (if normalize_flag a then [SetAttr (uv_pin @ ''.normalizedIsoParms'') 1] else []) @
                      [if local_space a then SetAttr (uv_pin @ ''.relativeSpaceMode'') 1
                       else SetAttr (object_to_pin a @ ''.inheritsTransform'') 0])))"

subsection \<open>The procedure\<close>

definition make_uv_pin :: "'n cmds \<Rightarrow> 'n pin_args \<Rightarrow> 'n outcome" where
  "make_uv_pin h a =
     (case resolve_surface h (surface a) of
        Inl e \<Rightarrow> (Inl e, [])
      | Inr (primary_shape, shape_origin, attr_input, attr_world, attr_output) \<Rightarrow>
          (case ensure_intermediate h (surface a) primary_shape shape_origin attr_input attr_world of
             (Inl e, hist) \<Rightarrow> (Inl e, hist)
           | (Inr origin, hist) \<Rightarrow>
               create_and_connect h a primary_shape origin attr_world attr_output hist))"

subsection \<open>Reading a history\<close>

text \<open>
  The attribute a call writes: the target of \<^verbatim>\<open>setAttr\<close>, the destination of
  \<^verbatim>\<open>connectAttr\<close>. The other commands name nodes, not attributes.
\<close>

fun written :: "'n call \<Rightarrow> string option" where
  "written (SetAttr a k) = Some a"
| "written (SetAttrFloat2 a x y) = Some a"
| "written (ConnectAttr s d f) = Some d"
| "written c = None"

text \<open>The commands of lines 55 to 63, which build the intermediate shape.\<close>

fun restructures :: "'n call \<Rightarrow> bool" where
  "restructures (Duplicate n) = True"
| "restructures (Parent c p) = True"
| "restructures (Delete n) = True"
| "restructures (Rename n m) = True"
| "restructures c = False"

text \<open>The six axis symbols of the docstring, and the table the specification gives.\<close>

definition accepted_axes :: "string set" where
  "accepted_axes = {''x'', ''y'', ''z'', ''-x'', ''-y'', ''-z''}"

definition axis_table :: "(string \<times> int) list" where
  "axis_table = [(''x'', 0), (''y'', 1), (''z'', 2), (''-x'', 3), (''-y'', 4), (''-z'', 5)]"

text \<open>An axis argument that is given, not empty, and none of the six symbols.\<close>

definition rejected_axis :: "string option \<Rightarrow> bool" where
  "rejected_axis ax = (case ax of None \<Rightarrow> False | Some s \<Rightarrow> s \<noteq> [] \<and> s \<notin> accepted_axes)"

subsection \<open>A small scene for concrete runs\<close>

text \<open>
  Five surfaces: \<open>plane\<close> (a mesh with one deforming shape, fed by \<open>polyPlane1\<close>),
  \<open>skin\<close> (a NURBS surface that already has its intermediate shape), \<open>ghost\<close> (a
  mesh whose only shape is intermediate), \<open>path\<close> (a curve) and any other name (no
  shape at all). The host names new nodes as asked.
\<close>

definition scene :: "real cmds" where
  "scene =
     \<lparr>listRelatives = (\<lambda>hist n.
        if n = ''plane'' then Some [''planeShape'']
        else if n = ''plane1'' then Some [''plane1|planeShape'']
        else if n = ''skin'' then Some [''skinShape'', ''skinShapeOrig'']
        else if n = ''ghost'' then Some [''ghostShapeOrig'']
        else if n = ''path'' then Some [''pathShape'']
        else None),
      getAttr = (\<lambda>hist p.
        p = ''skinShapeOrig.intermediateObject'' \<or> p = ''ghostShapeOrig.intermediateObject''),
      objectType = (\<lambda>hist n.
        if n = ''skinShape'' then ''nurbsSurface''
        else if n = ''pathShape'' then ''nurbsCurve''
        else ''mesh''),
      duplicate = (\<lambda>hist n. [''plane1'']),
      rename = (\<lambda>hist n m. m),
      listConnections = (\<lambda>hist p.
        if p = ''planeShape.inMesh'' then Some [''planeShape.inMesh'', ''polyPlane1.output'']
        else None),
      createNode = (\<lambda>hist t n. n)\<rparr>"

section \<open>Properties\<close>

subsection \<open>The phases, one at a time\<close>

lemma suffix_differs:
  assumes "n \<le> length s" "n \<le> length t" "take n (rev s) \<noteq> take n (rev t)"
  shows "xs @ s \<noteq> ys @ t"
proof
  assume "xs @ s = ys @ t"
  then have "take n (rev (xs @ s)) = take n (rev (ys @ t))" by simp
  with assms show False by simp
qed

lemma surface_attrs_Inr:
  "surface_attrs ty = Inr (ai, aw, ao) \<Longrightarrow>
     ty = ''mesh'' \<and> ai = ''.inMesh'' \<and> aw = ''.worldMesh[0]'' \<and> ao = ''.outMesh'' \<or>
     ty = ''nurbsSurface'' \<and> ai = ''.create'' \<and> aw = ''.worldSpace[0]'' \<and> ao = ''.local''"
  by (simp add: surface_attrs_def split: if_splits)

lemma resolve_surface_empty:
  "listRelatives h [] srf = None \<or> listRelatives h [] srf = Some [] \<Longrightarrow>
     resolve_surface h srf = Inl (HostError (''No shape nodes found on surface: '' @ srf))"
  by (auto simp: resolve_surface_def)

lemma resolve_surface_shapes:
  "listRelatives h [] srf = Some (s0 # ss) \<Longrightarrow>
     resolve_surface h srf =
       (case surface_attrs (objectType h [] (next_where (\<lambda>s. \<not> intermediate h s) (s0 # ss) s0)) of
          Inl e \<Rightarrow> Inl e
        | Inr (ai, aw, ao) \<Rightarrow>
            Inr (next_where (\<lambda>s. \<not> intermediate h s) (s0 # ss) s0,
                 find (intermediate h) (s0 # ss), ai, aw, ao))"
  by (simp add: resolve_surface_def Let_def)

lemma resolve_surface_Inr:
  "resolve_surface h srf = Inr (p, so, ai, aw, ao) \<Longrightarrow>
     \<exists>s0 ss. listRelatives h [] srf = Some (s0 # ss) \<and>
       p = next_where (\<lambda>s. \<not> intermediate h s) (s0 # ss) s0 \<and>
       so = find (intermediate h) (s0 # ss) \<and>
       surface_attrs (objectType h [] p) = Inr (ai, aw, ao)"
  by (auto simp: resolve_surface_def Let_def simp del: find.simps
        split: option.splits list.splits sum.splits)

lemma create_intermediate_calls:
  "c \<in> set (snd (create_intermediate h srf p ai aw [])) \<Longrightarrow>
     restructures c \<or> (\<exists>s x f. c = ConnectAttr s (x @ ai) f) \<or>
     (\<exists>x. c = SetAttr (x @ ''.intermediateObject'') 1)"
  by (auto simp: create_intermediate_def Let_def split: list.splits option.splits)

lemma ensure_intermediate_calls:
  "c \<in> set (snd (ensure_intermediate h srf p so ai aw)) \<Longrightarrow>
     restructures c \<or> (\<exists>s x f. c = ConnectAttr s (x @ ai) f) \<or>
     (\<exists>x. c = SetAttr (x @ ''.intermediateObject'') 1)"
  by (cases so) (auto simp: ensure_intermediate_def dest: create_intermediate_calls)

lemma create_and_connect_begins:
  "\<exists>rest. snd (create_and_connect h a p origin aw ao pre) =
     pre @ [CreateNode ''uvPin'' (object_to_pin a @ ''_uvPin''),
            ConnectAttr (p @ aw) (createNode h pre ''uvPin'' (object_to_pin a @ ''_uvPin'') @ ''.deformedGeometry'') False,
            ConnectAttr (origin @ ao) (createNode h pre ''uvPin'' (object_to_pin a @ ''_uvPin'') @ ''.originalGeometry'') False,
            Xform (object_to_pin a) [0, 0, 0] [0, 0, 0]] @ rest"
  by (simp add: create_and_connect_def Let_def split: sum.splits)

lemma create_and_connect_Inr:
  "create_and_connect h a p origin aw ao pre = (Inr pin, hist) \<Longrightarrow>
     \<exists>n t. normal_axis_enum (normal_axis a) = Inr n \<and> tangent_axis_enum (tangent_axis a) = Inr t \<and>
       pin = createNode h pre ''uvPin'' (object_to_pin a @ ''_uvPin'') \<and>
       hist = pre @
         [CreateNode ''uvPin'' (object_to_pin a @ ''_uvPin''),
          ConnectAttr (p @ aw) (pin @ ''.deformedGeometry'') False,
          ConnectAttr (origin @ ao) (pin @ ''.originalGeometry'') False,
          Xform (object_to_pin a) [0, 0, 0] [0, 0, 0],
          SetAttr (pin @ ''.normalAxis'') n,
          SetAttr (pin @ ''.tangentAxis'') t,
          SetAttr (pin @ ''.normalizedIsoParms'') 0,
          SetAttrFloat2 (pin @ ''.coordinate[0]'') (u a) (v a),
          ConnectAttr (pin @ ''.outputMatrix[0]'') (object_to_pin a @ ''.offsetParentMatrix'') False] @
         (if normalize_flag a then [SetAttr (pin @ ''.normalizedIsoParms'') 1] else []) @
         [if local_space a then SetAttr (pin @ ''.relativeSpaceMode'') 1
          else SetAttr (object_to_pin a @ ''.inheritsTransform'') 0]"
  by (auto simp: create_and_connect_def Let_def split: sum.splits)

lemma make_uv_pin_Inr:
  "make_uv_pin h a = (Inr pin, hist) \<Longrightarrow>
     \<exists>p so ai aw ao origin pre.
       resolve_surface h (surface a) = Inr (p, so, ai, aw, ao) \<and>
       ensure_intermediate h (surface a) p so ai aw = (Inr origin, pre) \<and>
       create_and_connect h a p origin aw ao pre = (Inr pin, hist)"
  by (auto simp: make_uv_pin_def split: sum.splits prod.splits)

lemma make_uv_pin_cases:
  "(\<exists>e. resolve_surface h (surface a) = Inl e \<and> make_uv_pin h a = (Inl e, [])) \<or>
   (\<exists>p so ai aw ao e pre. resolve_surface h (surface a) = Inr (p, so, ai, aw, ao) \<and>
       ensure_intermediate h (surface a) p so ai aw = (Inl e, pre) \<and> make_uv_pin h a = (Inl e, pre)) \<or>
   (\<exists>p so ai aw ao origin pre. resolve_surface h (surface a) = Inr (p, so, ai, aw, ao) \<and>
       ensure_intermediate h (surface a) p so ai aw = (Inr origin, pre) \<and>
       make_uv_pin h a = create_and_connect h a p origin aw ao pre)"
  by (auto simp: make_uv_pin_def split: sum.splits prod.splits)

lemma attr_differs:
  "n \<le> length s \<Longrightarrow> n \<le> length t \<Longrightarrow> take n (rev s) \<noteq> take n (rev t) \<Longrightarrow>
     (xs @ s = ys @ t) = False"
  using suffix_differs [of n s t xs ys] by simp

lemma restructures_written: "restructures c \<Longrightarrow> written c = None"
  by (cases c) simp_all

lemma normal_axis_enum_rejected:
  "rejected_axis ax \<Longrightarrow> \<exists>s. ax = Some s \<and> normal_axis_enum ax = Inl (axis_fault s)"
  by (auto simp: rejected_axis_def accepted_axes_def normal_axis_enum_def split: option.splits)

lemma tangent_axis_enum_rejected:
  "rejected_axis ax \<Longrightarrow> \<exists>s. ax = Some s \<and> tangent_axis_enum ax = Inl (axis_fault s)"
  by (auto simp: rejected_axis_def accepted_axes_def tangent_axis_enum_def split: option.splits)

lemma normal_axis_enum_accepted:
  "\<not> rejected_axis ax \<Longrightarrow> \<exists>n. normal_axis_enum ax = Inr n"
  by (auto simp: rejected_axis_def accepted_axes_def normal_axis_enum_def split: option.splits)

lemma tangent_axis_enum_accepted:
  "\<not> rejected_axis ax \<Longrightarrow> \<exists>n. tangent_axis_enum ax = Inr n"
  by (auto simp: rejected_axis_def accepted_axes_def tangent_axis_enum_def split: option.splits)

lemma create_and_connect_rejected:
  assumes "rejected_axis (normal_axis a) \<or> rejected_axis (tangent_axis a)"
  shows "\<exists>s hist. create_and_connect h a p origin aw ao pre = (Inl (axis_fault s), hist) \<and>
           Some s = (if rejected_axis (normal_axis a) then normal_axis a else tangent_axis a)"
proof (cases "rejected_axis (normal_axis a)")
  case True
  from normal_axis_enum_rejected [OF this] show ?thesis
    using True by (auto simp: create_and_connect_def Let_def)
next
  case False
  with assms have "rejected_axis (tangent_axis a)" by simp
  from tangent_axis_enum_rejected [OF this] normal_axis_enum_accepted [OF False] show ?thesis
    using False by (auto simp: create_and_connect_def Let_def)
qed

lemma ensure_intermediate_written:
  assumes c: "c \<in> set (snd (ensure_intermediate h srf p so ai aw))"
    and ai: "ai = ''.inMesh'' \<or> ai = ''.create''"
  shows "written c \<noteq> Some (x @ ''.relativeSpaceMode'') \<and> written c \<noteq> Some (x @ ''.inheritsTransform'')"
  using ensure_intermediate_calls [OF c] ai
  by (auto simp: attr_differs [where n = 7] dest: restructures_written)

lemma resolve_surface_attr_input:
  "resolve_surface h srf = Inr (p, so, ai, aw, ao) \<Longrightarrow> ai = ''.inMesh'' \<or> ai = ''.create''"
  by (auto dest!: resolve_surface_Inr surface_attrs_Inr)

lemma create_intermediate_Inr:
  "create_intermediate h srf p ai aw [] = (Inr origin, pre) \<Longrightarrow>
     \<exists>dup dups o0 os conn.
       duplicate h [] p = dup # dups \<and>
       listRelatives h [Duplicate p] dup = Some (o0 # os) \<and>
       origin = rename h [Duplicate p, Parent o0 srf, Delete dup] o0 (p @ ''Orig'') \<and>
       pre = [Duplicate p, Parent o0 srf, Delete dup, Rename o0 (p @ ''Orig'')] @ conn @
             [ConnectAttr (origin @ aw) (p @ ai) True, SetAttr (origin @ ''.intermediateObject'') 1] \<and>
       (\<forall>c \<in> set conn. \<not> restructures c)"
  by (auto simp: create_intermediate_def Let_def split: list.splits option.splits)

lemma normal_axis_enum_table:
  "map_of axis_table s = Some k \<Longrightarrow> normal_axis_enum (Some s) = Inr k"
  by (auto simp: axis_table_def normal_axis_enum_def split: if_splits)

lemma tangent_axis_enum_table:
  "map_of axis_table s = Some k \<Longrightarrow> tangent_axis_enum (Some s) = Inr k"
  by (auto simp: axis_table_def tangent_axis_enum_def split: if_splits)

lemma ensure_intermediate_sets:
  assumes "SetAttr x k \<in> set (snd (ensure_intermediate h srf p so ai aw))"
  shows "\<exists>y. x = y @ ''.intermediateObject''"
  using ensure_intermediate_calls [OF assms] by auto

lemma ensure_intermediate_no_pin:
  assumes "c \<in> set (snd (ensure_intermediate h srf p so ai aw))"
  shows "(\<forall>t n. c \<noteq> CreateNode t n) \<and> (\<forall>x y z. c \<noteq> SetAttrFloat2 x y z)"
  using ensure_intermediate_calls [OF assms] by auto

lemma create_intermediate_rerouted:
  assumes "duplicate h [] p = dup # dups"
    and "listRelatives h [Duplicate p] dup = Some (o0 # os)"
    and "listConnections h [Duplicate p, Parent o0 srf, Delete dup, Rename o0 (p @ ''Orig'')] (p @ ai) =
           Some (plug # src # others)"
    and "origin = rename h [Duplicate p, Parent o0 srf, Delete dup] o0 (p @ ''Orig'')"
  shows "create_intermediate h srf p ai aw [] =
           (Inr origin,
            [Duplicate p, Parent o0 srf, Delete dup, Rename o0 (p @ ''Orig''),
             ConnectAttr src (origin @ ai) False,
             ConnectAttr (origin @ aw) (p @ ai) True,
             SetAttr (origin @ ''.intermediateObject'') 1])"
  using assms by (simp add: create_intermediate_def Let_def)

lemma create_and_connect_prefix:
  "\<exists>post. snd (create_and_connect h a p origin aw ao pre) = pre @ post"
  using create_and_connect_begins [of h a p origin aw ao pre] by blast

lemma find_all:
  "\<forall>x \<in> set (y # ys). q x \<Longrightarrow> find q (y # ys) = Some y"
  by simp

lemma next_where_none:
  "\<forall>x \<in> set xs. \<not> q x \<Longrightarrow> next_where q xs d = d"
proof -
  assume "\<forall>x \<in> set xs. \<not> q x"
  then have "find q xs = None"
    by (simp add: find_None_iff)
  then show ?thesis
    by (simp add: next_where_def)
qed

lemma resolve_surface_Inl:
  "resolve_surface h srf = Inl e \<Longrightarrow> \<exists>msg. e = HostError msg"
  by (auto simp: resolve_surface_def surface_attrs_def Let_def split: list.splits option.splits if_splits)

lemma ensure_intermediate_Inl:
  "ensure_intermediate h srf p so ai aw = (Inl e, pre) \<Longrightarrow> e = IndexError \<or> (\<exists>msg. e = HostError msg)"
  by (auto simp: ensure_intermediate_def create_intermediate_def Let_def split: list.splits option.splits)

lemma create_and_connect_Inl:
  "create_and_connect h a p origin aw ao pre = (Inl e, hist) \<Longrightarrow>
     normal_axis_enum (normal_axis a) = Inl e \<or> tangent_axis_enum (tangent_axis a) = Inl e"
  by (auto simp: create_and_connect_def Let_def split: sum.splits)

lemma normal_axis_enum_Inl:
  "normal_axis_enum ax = Inl e \<Longrightarrow> \<exists>s. ax = Some s \<and> s \<noteq> [] \<and> e = axis_fault s"
  by (auto simp: normal_axis_enum_def split: option.splits if_splits)

lemma tangent_axis_enum_Inl:
  "tangent_axis_enum ax = Inl e \<Longrightarrow> \<exists>s. ax = Some s \<and> s \<noteq> [] \<and> e = axis_fault s"
  by (auto simp: tangent_axis_enum_def split: option.splits if_splits)

lemma make_uv_pin_RuntimeError:
  assumes "fst (make_uv_pin h a) = Inl (RuntimeError msg)"
  shows "\<exists>s. s \<noteq> [] \<and> msg = s @ '' isn't a valid axis, it should be x y z -x -y -z'' \<and>
           (normal_axis a = Some s \<or> tangent_axis a = Some s)"
proof -
  consider
    (surface) e where "resolve_surface h (surface a) = Inl e" "make_uv_pin h a = (Inl e, [])"
  | (shape) p so ai aw e pre where
      "ensure_intermediate h (surface a) p so ai aw = (Inl e, pre)" "make_uv_pin h a = (Inl e, pre)"
  | (pin) p origin aw ao pre where
      "make_uv_pin h a = create_and_connect h a p origin aw ao pre"
    using make_uv_pin_cases [of h a] by blast
  then show ?thesis
  proof cases
    case surface
    with assms resolve_surface_Inl [of h "surface a" e] show ?thesis by auto
  next
    case shape
    with assms ensure_intermediate_Inl [of h "surface a" p so ai aw e pre] show ?thesis by auto
  next
    case pin
    with assms have "create_and_connect h a p origin aw ao pre =
        (Inl (RuntimeError msg), snd (create_and_connect h a p origin aw ao pre))"
      by (metis prod.collapse)
    from create_and_connect_Inl [OF this] show ?thesis
      by (auto dest!: normal_axis_enum_Inl tangent_axis_enum_Inl simp: axis_fault_def)
  qed
qed

text \<open>The equations that evaluate a run on the small scene.\<close>

lemmas run =
  make_uv_pin_def resolve_surface_def ensure_intermediate_def create_intermediate_def
  create_and_connect_def normal_axis_enum_def tangent_axis_enum_def surface_attrs_def
  next_where_def intermediate_def scene_def default_args_def Let_def

subsection \<open>The claims\<close>

text \<open>
  C1. The \<^verbatim>\<open>reset_transforms\<close> flag has no effect on anything the procedure does:
  the result and the history are the same for every value of the flag. And every
  invocation that reaches the creation of the pin (a \<^verbatim>\<open>createNode("uvPin", ...)\<close> is in
  its history) has zeroed the pinned object's translation and rotation, whatever the
  flag.
\<close>

theorem reset_transforms_has_no_effect:
  "make_uv_pin h (a\<lparr>reset_transforms := b\<rparr>) = make_uv_pin h a \<and>
   (CreateNode ''uvPin'' n \<in> set (snd (make_uv_pin h a)) \<longrightarrow>
      Xform (object_to_pin a) [0, 0, 0] [0, 0, 0] \<in> set (snd (make_uv_pin h (a\<lparr>reset_transforms := b\<rparr>))))"
proof -
  have same: "make_uv_pin h (a\<lparr>reset_transforms := b\<rparr>) = make_uv_pin h a"
  proof -
    have "create_and_connect h (a\<lparr>reset_transforms := b\<rparr>) = create_and_connect h a"
      by (simp add: create_and_connect_def Let_def fun_eq_iff split: sum.splits)
    then show ?thesis
      by (simp add: make_uv_pin_def split: sum.splits prod.splits)
  qed
  have "Xform (object_to_pin a) [0, 0, 0] [0, 0, 0] \<in> set (snd (make_uv_pin h a))"
    if reached: "CreateNode ''uvPin'' n \<in> set (snd (make_uv_pin h a))"
  proof -
    consider
      (surface) e where "make_uv_pin h a = (Inl e, [])"
    | (shape) p so ai aw e pre where
        "ensure_intermediate h (surface a) p so ai aw = (Inl e, pre)" "make_uv_pin h a = (Inl e, pre)"
    | (pin) p origin aw ao pre where
        "make_uv_pin h a = create_and_connect h a p origin aw ao pre"
      using make_uv_pin_cases [of h a] by blast
    then show ?thesis
    proof cases
      case surface
      with reached show ?thesis by simp
    next
      case shape
      with reached have "CreateNode ''uvPin'' n \<in> set (snd (ensure_intermediate h (surface a) p so ai aw))"
        by simp
      from ensure_intermediate_calls [OF this] show ?thesis by simp
    next
      case pin
      with create_and_connect_begins [of h a p origin aw ao pre] show ?thesis by auto
    qed
  qed
  with same show ?thesis by simp
qed

theorem reset_transforms_has_no_effect_witness:
  "make_uv_pin scene ((default_args ''cube'' ''plane'')\<lparr>reset_transforms := False\<rparr>) =
     make_uv_pin scene (default_args ''cube'' ''plane'') \<and>
   CreateNode ''uvPin'' ''cube_uvPin'' \<in> set (snd (make_uv_pin scene (default_args ''cube'' ''plane''))) \<and>
   Xform ''cube'' [0, 0, 0] [0, 0, 0] \<in>
     set (snd (make_uv_pin scene ((default_args ''cube'' ''plane'')\<lparr>reset_transforms := False\<rparr>)))"
proof -
  have reached: "CreateNode ''uvPin'' ''cube_uvPin'' \<in> set (snd (make_uv_pin scene (default_args ''cube'' ''plane'')))"
    by (simp add: run)
  have obj: "object_to_pin (default_args ''cube'' ''plane'' :: real pin_args) = ''cube''"
    by (simp add: default_args_def)
  note fact = reset_transforms_has_no_effect
    [where h = scene and a = "default_args ''cube'' ''plane''" and b = False and n = "''cube_uvPin''"]
  from fact have same: "make_uv_pin scene ((default_args ''cube'' ''plane'')\<lparr>reset_transforms := False\<rparr>) =
     make_uv_pin scene (default_args ''cube'' ''plane'')"
    by (rule conjunct1)
  from fact reached have "Xform (object_to_pin (default_args ''cube'' ''plane'' :: real pin_args)) [0, 0, 0] [0, 0, 0] \<in>
     set (snd (make_uv_pin scene ((default_args ''cube'' ''plane'')\<lparr>reset_transforms := False\<rparr>)))"
    by blast
  then have "Xform ''cube'' [0, 0, 0] [0, 0, 0] \<in>
     set (snd (make_uv_pin scene ((default_args ''cube'' ''plane'')\<lparr>reset_transforms := False\<rparr>)))"
    by (simp only: obj)
  with same reached show ?thesis by blast
qed

text \<open>
  C2, as amended. Take an invocation that succeeds when both axis arguments are omitted
  (so the surface is supported and the intermediate shape is in place), and give it a
  \<^verbatim>\<open>normal_axis\<close> or \<^verbatim>\<open>tangent_axis\<close> that is not empty and is none of the six
  symbols. Then it ends with the \<^verbatim>\<open>RuntimeError\<close> for that symbol (the normal axis is
  checked first), and by then the history holds the \<^verbatim>\<open>createNode\<close> of the pin and the
  connections into its \<^verbatim>\<open>deformedGeometry\<close> and \<^verbatim>\<open>originalGeometry\<close>.

  The claim as written fails in two places, which the counterexample shows on the small
  scene: the empty string is outside the six symbols and raises nothing, and on a surface
  without shapes the invocation ends in the host's error before any node exists.
\<close>

theorem invalid_axis_raises_after_pin_creation:
  assumes reach: "make_uv_pin h (a\<lparr>normal_axis := None, tangent_axis := None\<rparr>) = (Inr pin, hist0)"
    and bad: "rejected_axis (normal_axis a) \<or> rejected_axis (tangent_axis a)"
  shows "\<exists>s hist. make_uv_pin h a = (Inl (axis_fault s), hist) \<and>
           Some s = (if rejected_axis (normal_axis a) then normal_axis a else tangent_axis a) \<and>
           CreateNode ''uvPin'' (object_to_pin a @ ''_uvPin'') \<in> set hist \<and>
           (\<exists>src. ConnectAttr src (pin @ ''.deformedGeometry'') False \<in> set hist) \<and>
           (\<exists>src. ConnectAttr src (pin @ ''.originalGeometry'') False \<in> set hist)"
proof -
  let ?a0 = "a\<lparr>normal_axis := None, tangent_axis := None\<rparr>"
  from make_uv_pin_Inr [OF reach] obtain p so ai aw ao origin pre where
    res: "resolve_surface h (surface a) = Inr (p, so, ai, aw, ao)" and
    ens: "ensure_intermediate h (surface a) p so ai aw = (Inr origin, pre)" and
    con: "create_and_connect h ?a0 p origin aw ao pre = (Inr pin, hist0)"
    by auto
  from create_and_connect_Inr [OF con]
  have pin: "pin = createNode h pre ''uvPin'' (object_to_pin a @ ''_uvPin'')" by auto
  have run: "make_uv_pin h a = create_and_connect h a p origin aw ao pre"
    using res ens by (simp add: make_uv_pin_def)
  from create_and_connect_rejected [OF bad, of h p origin aw ao pre] obtain s hist where
    fault: "create_and_connect h a p origin aw ao pre = (Inl (axis_fault s), hist)" and
    s: "Some s = (if rejected_axis (normal_axis a) then normal_axis a else tangent_axis a)"
    by blast
  from create_and_connect_begins [of h a p origin aw ao pre] fault pin obtain rest where
    "hist = pre @
       [CreateNode ''uvPin'' (object_to_pin a @ ''_uvPin''),
        ConnectAttr (p @ aw) (pin @ ''.deformedGeometry'') False,
        ConnectAttr (origin @ ao) (pin @ ''.originalGeometry'') False,
        Xform (object_to_pin a) [0, 0, 0] [0, 0, 0]] @ rest"
    by auto
  then have "CreateNode ''uvPin'' (object_to_pin a @ ''_uvPin'') \<in> set hist"
    and "ConnectAttr (p @ aw) (pin @ ''.deformedGeometry'') False \<in> set hist"
    and "ConnectAttr (origin @ ao) (pin @ ''.originalGeometry'') False \<in> set hist"
    by simp_all
  moreover from run fault have "make_uv_pin h a = (Inl (axis_fault s), hist)"
    by simp
  ultimately show ?thesis
    using s by (intro exI [of _ s] exI [of _ hist]) auto
qed

theorem invalid_axis_raises_after_pin_creation_witness:
  "rejected_axis (Some ''q'') \<and>
   (\<exists>hist. make_uv_pin scene ((default_args ''cube'' ''skin'')\<lparr>normal_axis := Some ''q''\<rparr>) =
       (Inl (axis_fault ''q''), hist) \<and>
     CreateNode ''uvPin'' ''cube_uvPin'' \<in> set hist \<and>
     (\<exists>src. ConnectAttr src ''cube_uvPin.deformedGeometry'' False \<in> set hist) \<and>
     (\<exists>src. ConnectAttr src ''cube_uvPin.originalGeometry'' False \<in> set hist))"
proof -
  let ?a = "(default_args ''cube'' ''skin'')\<lparr>normal_axis := Some ''q''\<rparr> :: real pin_args"
  have reach: "make_uv_pin scene (?a\<lparr>normal_axis := None, tangent_axis := None\<rparr>) =
      (Inr ''cube_uvPin'', snd (make_uv_pin scene (?a\<lparr>normal_axis := None, tangent_axis := None\<rparr>)))"
    by (simp add: run)
  have bad: "rejected_axis (Some ''q'')"
    by (simp add: rejected_axis_def accepted_axes_def)
  then have bad': "rejected_axis (normal_axis ?a) \<or> rejected_axis (tangent_axis ?a)"
    by simp
  from invalid_axis_raises_after_pin_creation [OF reach bad'] bad
  show ?thesis by (simp add: default_args_def)
qed

theorem invalid_axis_counterexample:
  "'''' \<notin> accepted_axes \<and>
   fst (make_uv_pin scene ((default_args ''cube'' ''skin'')\<lparr>normal_axis := Some ''''\<rparr>)) = Inr ''cube_uvPin'' \<and>
   ''q'' \<notin> accepted_axes \<and>
   make_uv_pin scene ((default_args ''cube'' ''nothing'')\<lparr>normal_axis := Some ''q''\<rparr>) =
     (Inl (HostError ''No shape nodes found on surface: nothing''), [])"
  by (simp add: run accepted_axes_def)

text \<open>
  C3. On a successful invocation the last call is the space mode, one of two. With
  \<^verbatim>\<open>local_space\<close> false, the pinned object's \<^verbatim>\<open>inheritsTransform\<close> is set to 0 and
  no call of the history writes the pin's \<^verbatim>\<open>relativeSpaceMode\<close>; with
  \<^verbatim>\<open>local_space\<close> true, the pin's \<^verbatim>\<open>relativeSpaceMode\<close> is set to 1 and no call of
  the history writes the pinned object's \<^verbatim>\<open>inheritsTransform\<close>.
\<close>

theorem space_mode_is_exclusive:
  assumes ok: "make_uv_pin h a = (Inr pin, hist)"
  shows "(\<not> local_space a \<longrightarrow>
            SetAttr (object_to_pin a @ ''.inheritsTransform'') 0 \<in> set hist \<and>
            (\<forall>c \<in> set hist. written c \<noteq> Some (pin @ ''.relativeSpaceMode''))) \<and>
         (local_space a \<longrightarrow>
            SetAttr (pin @ ''.relativeSpaceMode'') 1 \<in> set hist \<and>
            (\<forall>c \<in> set hist. written c \<noteq> Some (object_to_pin a @ ''.inheritsTransform'')))"
proof -
  from make_uv_pin_Inr [OF ok] obtain p so ai aw ao origin pre where
    res: "resolve_surface h (surface a) = Inr (p, so, ai, aw, ao)" and
    ens: "ensure_intermediate h (surface a) p so ai aw = (Inr origin, pre)" and
    con: "create_and_connect h a p origin aw ao pre = (Inr pin, hist)"
    by auto
  have pre: "written c \<noteq> Some (x @ ''.relativeSpaceMode'') \<and> written c \<noteq> Some (x @ ''.inheritsTransform'')"
    if "c \<in> set pre" for c x
    using ensure_intermediate_written [of c h "surface a" p so ai aw x]
      resolve_surface_attr_input [OF res] ens that by simp
  from create_and_connect_Inr [OF con] obtain n t where
    hist: "hist = pre @
         [CreateNode ''uvPin'' (object_to_pin a @ ''_uvPin''),
          ConnectAttr (p @ aw) (pin @ ''.deformedGeometry'') False,
          ConnectAttr (origin @ ao) (pin @ ''.originalGeometry'') False,
          Xform (object_to_pin a) [0, 0, 0] [0, 0, 0],
          SetAttr (pin @ ''.normalAxis'') n,
          SetAttr (pin @ ''.tangentAxis'') t,
          SetAttr (pin @ ''.normalizedIsoParms'') 0,
          SetAttrFloat2 (pin @ ''.coordinate[0]'') (u a) (v a),
          ConnectAttr (pin @ ''.outputMatrix[0]'') (object_to_pin a @ ''.offsetParentMatrix'') False] @
         (if normalize_flag a then [SetAttr (pin @ ''.normalizedIsoParms'') 1] else []) @
         [if local_space a then SetAttr (pin @ ''.relativeSpaceMode'') 1
          else SetAttr (object_to_pin a @ ''.inheritsTransform'') 0]"
    by blast
  show ?thesis
  proof (cases "local_space a")
    case True
    with hist pre show ?thesis
      by (auto simp: attr_differs [where n = 7])
  next
    case False
    with hist pre show ?thesis
      by (auto simp: attr_differs [where n = 7])
  qed
qed

theorem space_mode_is_exclusive_witness:
  "SetAttr ''cube.inheritsTransform'' 0 \<in> set (snd (make_uv_pin scene (default_args ''cube'' ''plane''))) \<and>
   \<not> (\<exists>c. c \<in> set (snd (make_uv_pin scene (default_args ''cube'' ''plane''))) \<and>
      written c = Some ''cube_uvPin.relativeSpaceMode'') \<and>
   SetAttr ''cube_uvPin.relativeSpaceMode'' 1 \<in>
     set (snd (make_uv_pin scene ((default_args ''cube'' ''plane'')\<lparr>local_space := True\<rparr>))) \<and>
   \<not> (\<exists>c. c \<in> set (snd (make_uv_pin scene ((default_args ''cube'' ''plane'')\<lparr>local_space := True\<rparr>))) \<and>
      written c = Some ''cube.inheritsTransform'')"
proof -
  let ?a = "default_args ''cube'' ''plane'' :: real pin_args"
  let ?b = "?a\<lparr>local_space := True\<rparr>"
  have a: "make_uv_pin scene ?a = (Inr ''cube_uvPin'', snd (make_uv_pin scene ?a))"
    by (simp add: run)
  have b: "make_uv_pin scene ?b = (Inr ''cube_uvPin'', snd (make_uv_pin scene ?b))"
    by (simp add: run)
  have args: "\<not> local_space ?a" "local_space ?b" "object_to_pin ?a = ''cube''" "object_to_pin ?b = ''cube''"
    by (simp_all add: default_args_def)
  from space_mode_is_exclusive [OF a] space_mode_is_exclusive [OF b] args
  show ?thesis by auto
qed

text \<open>
  C4. When the surface has no shape child (the host answers \<^verbatim>\<open>None\<close> or an empty
  list), or when the type of its primary shape is neither \<^verbatim>\<open>mesh\<close> nor
  \<^verbatim>\<open>nurbsSurface\<close>, the invocation ends in the host's error command with the message
  for that case, and its history is empty: no pin node was created and no mutating
  command was issued.
\<close>

theorem surface_faults_change_nothing:
  "(listRelatives h [] (surface a) = None \<or> listRelatives h [] (surface a) = Some [] \<longrightarrow>
      make_uv_pin h a = (Inl (HostError (''No shape nodes found on surface: '' @ surface a)), [])) \<and>
   (listRelatives h [] (surface a) = Some (s0 # ss) \<and>
    ty = objectType h [] (next_where (\<lambda>s. \<not> intermediate h s) (s0 # ss) s0) \<and>
    ty \<noteq> ''mesh'' \<and> ty \<noteq> ''nurbsSurface'' \<longrightarrow>
      make_uv_pin h a = (Inl (HostError (''Unsupported surface type: '' @ ty)), []))"
proof (intro conjI impI)
  assume "listRelatives h [] (surface a) = None \<or> listRelatives h [] (surface a) = Some []"
  from resolve_surface_empty [OF this]
  show "make_uv_pin h a = (Inl (HostError (''No shape nodes found on surface: '' @ surface a)), [])"
    by (simp add: make_uv_pin_def)
next
  assume "listRelatives h [] (surface a) = Some (s0 # ss) \<and>
    ty = objectType h [] (next_where (\<lambda>s. \<not> intermediate h s) (s0 # ss) s0) \<and>
    ty \<noteq> ''mesh'' \<and> ty \<noteq> ''nurbsSurface''"
  then have shapes: "listRelatives h [] (surface a) = Some (s0 # ss)"
    and ty: "surface_attrs (objectType h [] (next_where (\<lambda>s. \<not> intermediate h s) (s0 # ss) s0)) =
      Inl (HostError (''Unsupported surface type: '' @ ty))"
    by (auto simp: surface_attrs_def)
  from resolve_surface_shapes [OF shapes] ty
  show "make_uv_pin h a = (Inl (HostError (''Unsupported surface type: '' @ ty)), [])"
    by (simp add: make_uv_pin_def)
qed

theorem surface_faults_change_nothing_witness:
  "make_uv_pin scene (default_args ''cube'' ''nothing'') =
     (Inl (HostError ''No shape nodes found on surface: nothing''), []) \<and>
   make_uv_pin scene (default_args ''cube'' ''path'') =
     (Inl (HostError ''Unsupported surface type: nurbsCurve''), [])"
proof -
  let ?a = "default_args ''cube'' ''nothing'' :: real pin_args"
  let ?b = "default_args ''cube'' ''path'' :: real pin_args"
  have none: "listRelatives scene [] (surface ?a) = None"
    by (simp add: scene_def default_args_def)
  have shapes: "listRelatives scene [] (surface ?b) = Some (''pathShape'' # [])"
    by (simp add: scene_def default_args_def)
  have ty: "''nurbsCurve'' = objectType scene [] (next_where (\<lambda>s. \<not> intermediate scene s) (''pathShape'' # []) ''pathShape'')"
    by (simp add: scene_def next_where_def intermediate_def)
  have srf: "surface ?a = ''nothing''" by (simp add: default_args_def)
  from surface_faults_change_nothing [where h = scene and a = ?a, THEN conjunct1] none srf
  have "make_uv_pin scene ?a = (Inl (HostError ''No shape nodes found on surface: nothing''), [])"
    by simp
  moreover
  have "listRelatives scene [] (surface ?b) = Some (''pathShape'' # []) \<and>
    ''nurbsCurve'' = objectType scene [] (next_where (\<lambda>s. \<not> intermediate scene s) (''pathShape'' # []) ''pathShape'') \<and>
    ''nurbsCurve'' \<noteq> ''mesh'' \<and> ''nurbsCurve'' \<noteq> ''nurbsSurface''"
    by (intro conjI) (rule shapes, rule ty, simp_all)
  from surface_faults_change_nothing
    [where h = scene and a = ?b and ?s0.0 = "''pathShape''" and ss = "[]" and ty = "''nurbsCurve''",
      THEN conjunct2, THEN mp, OF this]
  have "make_uv_pin scene ?b = (Inl (HostError ''Unsupported surface type: nurbsCurve''), [])"
    by simp
  ultimately show ?thesis by simp
qed

text \<open>
  C5. Take a successful invocation on a surface whose shapes are \<open>s0 # ss\<close> and whose
  active shape is \<open>p\<close>. If none of the shapes is intermediate, the history opens with
  one \<^verbatim>\<open>duplicate\<close> of \<open>p\<close>, the re-parenting of the duplicate's shape under the same
  surface, the deletion of the duplicate's transform and the renaming of that shape to
  \<open>p\<close> with the suffix \<^verbatim>\<open>Orig\<close>; what follows connects the new shape's world output
  into the input of \<open>p\<close> (forced), sets its \<^verbatim>\<open>intermediateObject\<close> flag, and holds no
  further duplication, re-parenting, deletion or renaming. If one of the shapes is
  intermediate, the history holds none of those four commands and writes no
  \<^verbatim>\<open>intermediateObject\<close> flag.
\<close>

theorem intermediate_shape_made_once:
  assumes ok: "make_uv_pin h a = (Inr pin, hist)"
    and shapes: "listRelatives h [] (surface a) = Some (s0 # ss)"
    and p: "p = next_where (\<lambda>s. \<not> intermediate h s) (s0 # ss) s0"
  shows "(find (intermediate h) (s0 # ss) = None \<longrightarrow>
            (\<exists>dup dups o0 os origin ai aw ao rest.
               surface_attrs (objectType h [] p) = Inr (ai, aw, ao) \<and>
               duplicate h [] p = dup # dups \<and>
               listRelatives h [Duplicate p] dup = Some (o0 # os) \<and>
               origin = rename h [Duplicate p, Parent o0 (surface a), Delete dup] o0 (p @ ''Orig'') \<and>
               hist = [Duplicate p, Parent o0 (surface a), Delete dup, Rename o0 (p @ ''Orig'')] @ rest \<and>
               ConnectAttr (origin @ aw) (p @ ai) True \<in> set rest \<and>
               SetAttr (origin @ ''.intermediateObject'') 1 \<in> set rest \<and>
               (\<forall>c \<in> set rest. \<not> restructures c))) \<and>
         (find (intermediate h) (s0 # ss) \<noteq> None \<longrightarrow>
            (\<forall>c \<in> set hist. \<not> restructures c \<and>
               (\<forall>x. written c \<noteq> Some (x @ ''.intermediateObject''))))"
proof -
  from make_uv_pin_Inr [OF ok] obtain p' so ai aw ao origin pre where
    res: "resolve_surface h (surface a) = Inr (p', so, ai, aw, ao)" and
    ens: "ensure_intermediate h (surface a) p' so ai aw = (Inr origin, pre)" and
    con: "create_and_connect h a p' origin aw ao pre = (Inr pin, hist)"
    by auto
  from res resolve_surface_shapes [OF shapes] p
  have p': "p' = p" and so: "so = find (intermediate h) (s0 # ss)"
    and attrs: "surface_attrs (objectType h [] p) = Inr (ai, aw, ao)"
    by (auto split: sum.splits)
  from create_and_connect_Inr [OF con] obtain n t where
    hist: "hist = pre @
         [CreateNode ''uvPin'' (object_to_pin a @ ''_uvPin''),
          ConnectAttr (p @ aw) (pin @ ''.deformedGeometry'') False,
          ConnectAttr (origin @ ao) (pin @ ''.originalGeometry'') False,
          Xform (object_to_pin a) [0, 0, 0] [0, 0, 0],
          SetAttr (pin @ ''.normalAxis'') n,
          SetAttr (pin @ ''.tangentAxis'') t,
          SetAttr (pin @ ''.normalizedIsoParms'') 0,
          SetAttrFloat2 (pin @ ''.coordinate[0]'') (u a) (v a),
          ConnectAttr (pin @ ''.outputMatrix[0]'') (object_to_pin a @ ''.offsetParentMatrix'') False] @
         (if normalize_flag a then [SetAttr (pin @ ''.normalizedIsoParms'') 1] else []) @
         [if local_space a then SetAttr (pin @ ''.relativeSpaceMode'') 1
          else SetAttr (object_to_pin a @ ''.inheritsTransform'') 0]"
    unfolding p' by blast
  show ?thesis
  proof (cases "find (intermediate h) (s0 # ss)")
    case None
    with ens so p' have "create_intermediate h (surface a) p ai aw [] = (Inr origin, pre)"
      by (simp add: ensure_intermediate_def)
    from create_intermediate_Inr [OF this] obtain dup dups o0 os conn where
      dup: "duplicate h [] p = dup # dups" and
      o0: "listRelatives h [Duplicate p] dup = Some (o0 # os)" and
      origin: "origin = rename h [Duplicate p, Parent o0 (surface a), Delete dup] o0 (p @ ''Orig'')" and
      pre: "pre = [Duplicate p, Parent o0 (surface a), Delete dup, Rename o0 (p @ ''Orig'')] @ conn @
             [ConnectAttr (origin @ aw) (p @ ai) True, SetAttr (origin @ ''.intermediateObject'') 1]" and
      conn: "\<forall>c \<in> set conn. \<not> restructures c"
      by blast
    define rest where "rest = drop 4 hist"
    have split: "hist = [Duplicate p, Parent o0 (surface a), Delete dup, Rename o0 (p @ ''Orig'')] @ rest"
      unfolding rest_def hist pre by simp
    have rest: "rest = conn @
        [ConnectAttr (origin @ aw) (p @ ai) True, SetAttr (origin @ ''.intermediateObject'') 1] @
        drop (length pre) hist"
      unfolding rest_def hist pre by simp
    have tail: "\<forall>c \<in> set (drop (length pre) hist). \<not> restructures c"
      unfolding hist by simp
    have "ConnectAttr (origin @ aw) (p @ ai) True \<in> set rest"
      and "SetAttr (origin @ ''.intermediateObject'') 1 \<in> set rest"
      and "\<forall>c \<in> set rest. \<not> restructures c"
      using conn tail unfolding rest by auto
    with None attrs dup o0 origin split show ?thesis by blast
  next
    case (Some s)
    with ens so have "pre = []"
      by (simp add: ensure_intermediate_def)
    with hist Some show ?thesis
      by (auto simp: attr_differs [where n = 7])
  qed
qed

theorem intermediate_shape_made_once_witness:
  "snd (make_uv_pin scene (default_args ''cube'' ''plane'')) =
     [Duplicate ''planeShape'', Parent ''plane1|planeShape'' ''plane'', Delete ''plane1'',
      Rename ''plane1|planeShape'' ''planeShapeOrig''] @
     drop 4 (snd (make_uv_pin scene (default_args ''cube'' ''plane''))) \<and>
   ConnectAttr ''planeShapeOrig.worldMesh[0]'' ''planeShape.inMesh'' True \<in>
     set (drop 4 (snd (make_uv_pin scene (default_args ''cube'' ''plane'')))) \<and>
   SetAttr ''planeShapeOrig.intermediateObject'' 1 \<in>
     set (drop 4 (snd (make_uv_pin scene (default_args ''cube'' ''plane'')))) \<and>
   \<not> (\<exists>c. c \<in> set (drop 4 (snd (make_uv_pin scene (default_args ''cube'' ''plane'')))) \<and> restructures c) \<and>
   \<not> (\<exists>c. c \<in> set (snd (make_uv_pin scene (default_args ''cube'' ''skin''))) \<and> restructures c)"
proof -
  let ?a = "default_args ''cube'' ''plane'' :: real pin_args"
  let ?b = "default_args ''cube'' ''skin'' :: real pin_args"
  have a: "make_uv_pin scene ?a = (Inr ''cube_uvPin'', snd (make_uv_pin scene ?a))"
    by (simp add: run)
  have b: "make_uv_pin scene ?b = (Inr ''cube_uvPin'', snd (make_uv_pin scene ?b))"
    by (simp add: run)
  have sa: "listRelatives scene [] (surface ?a) = Some (''planeShape'' # [])"
    and sb: "listRelatives scene [] (surface ?b) = Some (''skinShape'' # [''skinShapeOrig''])"
    by (simp_all add: scene_def default_args_def)
  have pa: "''planeShape'' = next_where (\<lambda>s. \<not> intermediate scene s) (''planeShape'' # []) ''planeShape''"
    and pb: "''skinShape'' = next_where (\<lambda>s. \<not> intermediate scene s) (''skinShape'' # [''skinShapeOrig'']) ''skinShape''"
    by (simp_all add: scene_def next_where_def intermediate_def)
  have fa: "find (intermediate scene) (''planeShape'' # []) = None"
    and fb: "find (intermediate scene) (''skinShape'' # [''skinShapeOrig'']) \<noteq> None"
    by (simp_all add: scene_def intermediate_def)
  from intermediate_shape_made_once [OF a sa pa, THEN conjunct1, THEN mp, OF fa]
  obtain dup dups o0 os origin ai aw ao rest where
    attrs: "surface_attrs (objectType scene [] ''planeShape'') = Inr (ai, aw, ao)" and
    dup: "duplicate scene [] ''planeShape'' = dup # dups" and
    o0: "listRelatives scene [Duplicate ''planeShape''] dup = Some (o0 # os)" and
    origin: "origin = rename scene [Duplicate ''planeShape'', Parent o0 (surface ?a), Delete dup] o0 (''planeShape'' @ ''Orig'')" and
    hist: "snd (make_uv_pin scene ?a) =
      [Duplicate ''planeShape'', Parent o0 (surface ?a), Delete dup, Rename o0 (''planeShape'' @ ''Orig'')] @ rest" and
    facts: "ConnectAttr (origin @ aw) (''planeShape'' @ ai) True \<in> set rest"
      "SetAttr (origin @ ''.intermediateObject'') 1 \<in> set rest"
      "\<forall>c \<in> set rest. \<not> restructures c"
    by blast
  from dup have dup': "dup = ''plane1''" by (simp add: scene_def)
  from o0 dup' have o0': "o0 = ''plane1|planeShape''" by (simp add: scene_def)
  from origin have origin': "origin = ''planeShapeOrig''" by (simp add: scene_def)
  from attrs have attrs': "ai = ''.inMesh''" "aw = ''.worldMesh[0]''"
    by (simp_all add: scene_def surface_attrs_def)
  have srf: "surface ?a = ''plane''" by (simp add: default_args_def)
  from hist have rest: "rest = drop 4 (snd (make_uv_pin scene ?a))" by simp
  from intermediate_shape_made_once [OF b sb pb, THEN conjunct2, THEN mp, OF fb]
  have "\<not> (\<exists>c. c \<in> set (snd (make_uv_pin scene ?b)) \<and> restructures c)"
    by blast
  moreover from hist have "snd (make_uv_pin scene ?a) =
     [Duplicate ''planeShape'', Parent ''plane1|planeShape'' ''plane'', Delete ''plane1'',
      Rename ''plane1|planeShape'' ''planeShapeOrig''] @ drop 4 (snd (make_uv_pin scene ?a))"
    unfolding rest [symmetric] dup' o0' srf by simp
  moreover from facts have "ConnectAttr ''planeShapeOrig.worldMesh[0]'' ''planeShape.inMesh'' True \<in>
       set (drop 4 (snd (make_uv_pin scene ?a)))"
    "SetAttr ''planeShapeOrig.intermediateObject'' 1 \<in> set (drop 4 (snd (make_uv_pin scene ?a)))"
    "\<not> (\<exists>c. c \<in> set (drop 4 (snd (make_uv_pin scene ?a))) \<and> restructures c)"
    unfolding rest [symmetric] origin' attrs' by auto
  ultimately show ?thesis by blast
qed

text \<open>
  C6. On a successful invocation the pin's \<^verbatim>\<open>normalAxis\<close> and \<^verbatim>\<open>tangentAxis\<close> are set
  by the table \<open>x \<mapsto> 0\<close>, \<open>y \<mapsto> 1\<close>, \<open>z \<mapsto> 2\<close>, \<open>-x \<mapsto> 3\<close>, \<open>-y \<mapsto> 4\<close>, \<open>-z \<mapsto> 5\<close>; an
  omitted \<^verbatim>\<open>normal_axis\<close> sets \<^verbatim>\<open>normalAxis\<close> to 1 and an omitted \<^verbatim>\<open>tangent_axis\<close>
  sets \<^verbatim>\<open>tangentAxis\<close> to 0. Each of the two attributes is set exactly once, so the
  value named is the only one the history gives it.
\<close>

theorem axis_enums_follow_table:
  assumes ok: "make_uv_pin h a = (Inr pin, hist)"
  shows "(\<forall>s k. normal_axis a = Some s \<and> map_of axis_table s = Some k \<longrightarrow>
            SetAttr (pin @ ''.normalAxis'') k \<in> set hist) \<and>
         (normal_axis a = None \<longrightarrow> SetAttr (pin @ ''.normalAxis'') 1 \<in> set hist) \<and>
         (\<forall>s k. tangent_axis a = Some s \<and> map_of axis_table s = Some k \<longrightarrow>
            SetAttr (pin @ ''.tangentAxis'') k \<in> set hist) \<and>
         (tangent_axis a = None \<longrightarrow> SetAttr (pin @ ''.tangentAxis'') 0 \<in> set hist) \<and>
         (\<exists>n. \<forall>k. SetAttr (pin @ ''.normalAxis'') k \<in> set hist \<longleftrightarrow> k = n) \<and>
         (\<exists>t. \<forall>k. SetAttr (pin @ ''.tangentAxis'') k \<in> set hist \<longleftrightarrow> k = t)"
proof -
  from make_uv_pin_Inr [OF ok] obtain p so ai aw ao origin pre where
    ens: "ensure_intermediate h (surface a) p so ai aw = (Inr origin, pre)" and
    con: "create_and_connect h a p origin aw ao pre = (Inr pin, hist)"
    by auto
  have pre: "SetAttr (pin @ ''.normalAxis'') k \<notin> set pre \<and> SetAttr (pin @ ''.tangentAxis'') k \<notin> set pre"
    for k
  proof -
    have False
      if "SetAttr (pin @ s) k \<in> set pre" and "s = ''.normalAxis'' \<or> s = ''.tangentAxis''" for s
    proof -
      from that(1) ens have "SetAttr (pin @ s) k \<in> set (snd (ensure_intermediate h (surface a) p so ai aw))"
        by simp
      from ensure_intermediate_sets [OF this] obtain y where "pin @ s = y @ ''.intermediateObject''" ..
      with that(2) show False
        by (auto simp: attr_differs [where n = 7])
    qed
    then show ?thesis by blast
  qed
  from create_and_connect_Inr [OF con] obtain n t where
    n: "normal_axis_enum (normal_axis a) = Inr n" and
    t: "tangent_axis_enum (tangent_axis a) = Inr t" and
    hist: "hist = pre @
         [CreateNode ''uvPin'' (object_to_pin a @ ''_uvPin''),
          ConnectAttr (p @ aw) (pin @ ''.deformedGeometry'') False,
          ConnectAttr (origin @ ao) (pin @ ''.originalGeometry'') False,
          Xform (object_to_pin a) [0, 0, 0] [0, 0, 0],
          SetAttr (pin @ ''.normalAxis'') n,
          SetAttr (pin @ ''.tangentAxis'') t,
          SetAttr (pin @ ''.normalizedIsoParms'') 0,
          SetAttrFloat2 (pin @ ''.coordinate[0]'') (u a) (v a),
          ConnectAttr (pin @ ''.outputMatrix[0]'') (object_to_pin a @ ''.offsetParentMatrix'') False] @
         (if normalize_flag a then [SetAttr (pin @ ''.normalizedIsoParms'') 1] else []) @
         [if local_space a then SetAttr (pin @ ''.relativeSpaceMode'') 1
          else SetAttr (object_to_pin a @ ''.inheritsTransform'') 0]"
    by blast
  have only_n: "SetAttr (pin @ ''.normalAxis'') k \<in> set hist \<longleftrightarrow> k = n" for k
    using pre [of k] unfolding hist by (auto simp: attr_differs [where n = 7])
  have only_t: "SetAttr (pin @ ''.tangentAxis'') k \<in> set hist \<longleftrightarrow> k = t" for k
    using pre [of k] unfolding hist by (auto simp: attr_differs [where n = 7])
  have "n = k" if "normal_axis a = Some s" "map_of axis_table s = Some k" for s k
    using that n normal_axis_enum_table [of s k] by simp
  moreover have "n = 1" if "normal_axis a = None"
    using that n by (simp add: normal_axis_enum_def)
  moreover have "t = k" if "tangent_axis a = Some s" "map_of axis_table s = Some k" for s k
    using that t tangent_axis_enum_table [of s k] by simp
  moreover have "t = 0" if "tangent_axis a = None"
    using that t by (simp add: tangent_axis_enum_def)
  ultimately show ?thesis
    using only_n only_t by blast
qed

theorem axis_enums_follow_table_witness:
  "map_of axis_table ''-z'' = Some 5 \<and> map_of axis_table ''y'' = Some 1 \<and>
   SetAttr ''cube_uvPin.normalAxis'' 5 \<in>
     set (snd (make_uv_pin scene
       ((default_args ''cube'' ''skin'')\<lparr>normal_axis := Some ''-z'', tangent_axis := Some ''y''\<rparr>))) \<and>
   SetAttr ''cube_uvPin.tangentAxis'' 1 \<in>
     set (snd (make_uv_pin scene
       ((default_args ''cube'' ''skin'')\<lparr>normal_axis := Some ''-z'', tangent_axis := Some ''y''\<rparr>))) \<and>
   SetAttr ''cube_uvPin.normalAxis'' 1 \<in> set (snd (make_uv_pin scene (default_args ''cube'' ''skin''))) \<and>
   SetAttr ''cube_uvPin.tangentAxis'' 0 \<in> set (snd (make_uv_pin scene (default_args ''cube'' ''skin'')))"
proof -
  let ?d = "default_args ''cube'' ''skin'' :: real pin_args"
  let ?a = "?d\<lparr>normal_axis := Some ''-z'', tangent_axis := Some ''y''\<rparr>"
  have a: "make_uv_pin scene ?a = (Inr ''cube_uvPin'', snd (make_uv_pin scene ?a))"
    by (simp add: run)
  have d: "make_uv_pin scene ?d = (Inr ''cube_uvPin'', snd (make_uv_pin scene ?d))"
    by (simp add: run)
  have table: "map_of axis_table ''-z'' = Some 5" "map_of axis_table ''y'' = Some 1"
    by (simp_all add: axis_table_def)
  have args: "normal_axis ?a = Some ''-z''" "tangent_axis ?a = Some ''y''"
    "normal_axis ?d = None" "tangent_axis ?d = None"
    by (simp_all add: default_args_def)
  note fa = axis_enums_follow_table [OF a]
  note fd = axis_enums_follow_table [OF d]
  from fa args(1) table(1) have "SetAttr ''cube_uvPin.normalAxis'' 5 \<in> set (snd (make_uv_pin scene ?a))"
    by (metis append_Cons append_Nil)
  moreover from fa args(2) table(2) have "SetAttr ''cube_uvPin.tangentAxis'' 1 \<in> set (snd (make_uv_pin scene ?a))"
    by (metis append_Cons append_Nil)
  moreover from fd args(3) have "SetAttr ''cube_uvPin.normalAxis'' 1 \<in> set (snd (make_uv_pin scene ?d))"
    by simp
  moreover from fd args(4) have "SetAttr ''cube_uvPin.tangentAxis'' 0 \<in> set (snd (make_uv_pin scene ?d))"
    by simp
  ultimately show ?thesis using table by simp
qed

text \<open>
  C7. On a successful invocation the history holds the \<^verbatim>\<open>setAttr\<close> of the pin's
  \<^verbatim>\<open>coordinate[0]\<close> to the pair \<open>(u, v)\<close> of the caller, and no other \<^verbatim>\<open>float2\<close>
  write; it holds the connection of the pin's \<^verbatim>\<open>outputMatrix[0]\<close> into the pinned
  object's \<^verbatim>\<open>offsetParentMatrix\<close>; and the value returned is the name the host gave
  to the one \<^verbatim>\<open>uvPin\<close> node the invocation created. With the coordinates omitted the
  pair is \<open>(0, 0)\<close>.
\<close>

theorem coordinate_output_and_result:
  assumes ok: "make_uv_pin h a = (Inr pin, hist)"
  shows "SetAttrFloat2 (pin @ ''.coordinate[0]'') (u a) (v a) \<in> set hist \<and>
         (\<forall>x y z. SetAttrFloat2 x y z \<in> set hist \<longrightarrow>
            x = pin @ ''.coordinate[0]'' \<and> y = u a \<and> z = v a) \<and>
         ConnectAttr (pin @ ''.outputMatrix[0]'') (object_to_pin a @ ''.offsetParentMatrix'') False \<in> set hist \<and>
         (\<exists>pre post. hist = pre @ CreateNode ''uvPin'' (object_to_pin a @ ''_uvPin'') # post \<and>
            pin = createNode h pre ''uvPin'' (object_to_pin a @ ''_uvPin'') \<and>
            (\<forall>c \<in> set (pre @ post). \<forall>t n. c \<noteq> CreateNode t n)) \<and>
         u (default_args obj srf :: ('z::zero) pin_args) = 0 \<and> v (default_args obj srf :: ('z::zero) pin_args) = 0"
proof -
  from make_uv_pin_Inr [OF ok] obtain p so ai aw ao origin pre where
    ens: "ensure_intermediate h (surface a) p so ai aw = (Inr origin, pre)" and
    con: "create_and_connect h a p origin aw ao pre = (Inr pin, hist)"
    by auto
  have pre: "(\<forall>t n. c \<noteq> CreateNode t n) \<and> (\<forall>x y z. c \<noteq> SetAttrFloat2 x y z)" if "c \<in> set pre" for c
    using ensure_intermediate_no_pin [of c h "surface a" p so ai aw] ens that by simp
  from create_and_connect_Inr [OF con] obtain n t where
    pin: "pin = createNode h pre ''uvPin'' (object_to_pin a @ ''_uvPin'')" and
    hist: "hist = pre @
         [CreateNode ''uvPin'' (object_to_pin a @ ''_uvPin''),
          ConnectAttr (p @ aw) (pin @ ''.deformedGeometry'') False,
          ConnectAttr (origin @ ao) (pin @ ''.originalGeometry'') False,
          Xform (object_to_pin a) [0, 0, 0] [0, 0, 0],
          SetAttr (pin @ ''.normalAxis'') n,
          SetAttr (pin @ ''.tangentAxis'') t,
          SetAttr (pin @ ''.normalizedIsoParms'') 0,
          SetAttrFloat2 (pin @ ''.coordinate[0]'') (u a) (v a),
          ConnectAttr (pin @ ''.outputMatrix[0]'') (object_to_pin a @ ''.offsetParentMatrix'') False] @
         (if normalize_flag a then [SetAttr (pin @ ''.normalizedIsoParms'') 1] else []) @
         [if local_space a then SetAttr (pin @ ''.relativeSpaceMode'') 1
          else SetAttr (object_to_pin a @ ''.inheritsTransform'') 0]"
    by blast
  define post where "post = drop (Suc (length pre)) hist"
  have split: "hist = pre @ CreateNode ''uvPin'' (object_to_pin a @ ''_uvPin'') # post"
    unfolding post_def hist by simp
  have post: "\<forall>c \<in> set post. \<forall>t n. c \<noteq> CreateNode t n"
    unfolding post_def hist by simp
  have created: "\<exists>pre post. hist = pre @ CreateNode ''uvPin'' (object_to_pin a @ ''_uvPin'') # post \<and>
            pin = createNode h pre ''uvPin'' (object_to_pin a @ ''_uvPin'') \<and>
            (\<forall>c \<in> set (pre @ post). \<forall>t n. c \<noteq> CreateNode t n)"
    using split pin post pre by (intro exI [of _ pre] exI [of _ post]) auto
  have coord: "SetAttrFloat2 (pin @ ''.coordinate[0]'') (u a) (v a) \<in> set hist"
    and out: "ConnectAttr (pin @ ''.outputMatrix[0]'') (object_to_pin a @ ''.offsetParentMatrix'') False \<in> set hist"
    unfolding hist by simp_all
  have only: "x = pin @ ''.coordinate[0]'' \<and> y = u a \<and> z = v a" if "SetAttrFloat2 x y z \<in> set hist" for x y z
  proof -
    from pre have "SetAttrFloat2 x y z \<notin> set pre" by blast
    with that show ?thesis
      unfolding hist by (auto split: if_splits)
  qed
  have "u (default_args obj srf :: ('z::zero) pin_args) = 0" "v (default_args obj srf :: ('z::zero) pin_args) = 0"
    by (simp_all add: default_args_def)
  with coord only out created show ?thesis by blast
qed

theorem coordinate_output_and_result_witness:
  "make_uv_pin scene ((default_args ''cube'' ''plane'')\<lparr>u := 1 / 4, v := 3 / 4\<rparr>) =
     (Inr ''cube_uvPin'', snd (make_uv_pin scene ((default_args ''cube'' ''plane'')\<lparr>u := 1 / 4, v := 3 / 4\<rparr>))) \<and>
   SetAttrFloat2 ''cube_uvPin.coordinate[0]'' (1 / 4) (3 / 4) \<in>
     set (snd (make_uv_pin scene ((default_args ''cube'' ''plane'')\<lparr>u := 1 / 4, v := 3 / 4\<rparr>))) \<and>
   ConnectAttr ''cube_uvPin.outputMatrix[0]'' ''cube.offsetParentMatrix'' False \<in>
     set (snd (make_uv_pin scene ((default_args ''cube'' ''plane'')\<lparr>u := 1 / 4, v := 3 / 4\<rparr>))) \<and>
   \<not> (\<exists>x y z. SetAttrFloat2 x y z \<in>
          set (snd (make_uv_pin scene ((default_args ''cube'' ''plane'')\<lparr>u := 1 / 4, v := 3 / 4\<rparr>))) \<and>
        (x, y, z) \<noteq> (''cube_uvPin.coordinate[0]'', 1 / 4, 3 / 4))"
proof -
  let ?a = "(default_args ''cube'' ''plane'')\<lparr>u := 1 / 4, v := 3 / 4\<rparr> :: real pin_args"
  have a: "make_uv_pin scene ?a = (Inr ''cube_uvPin'', snd (make_uv_pin scene ?a))"
    by (simp add: run)
  have args: "u ?a = 1 / 4" "v ?a = 3 / 4" "object_to_pin ?a = ''cube''"
    by (simp_all add: default_args_def)
  from coordinate_output_and_result [OF a, where obj = "''cube''" and srf = "''plane''"] args a
  show ?thesis by auto
qed

text \<open>
  C8. When the intermediate shape is made (no shape of the surface is intermediate) and
  the host lists a connection on the active shape's input, whose second entry \<open>src\<close> is
  the plug on the other end, the history continues, right after the renaming, with the
  connection of \<open>src\<close> into the new shape's input and then with the forced connection of
  the new shape's world output into the active shape's input.
\<close>

theorem upstream_input_is_rerouted:
  assumes shapes: "listRelatives h [] (surface a) = Some (s0 # ss)"
    and none: "find (intermediate h) (s0 # ss) = None"
    and p: "p = next_where (\<lambda>s. \<not> intermediate h s) (s0 # ss) s0"
    and attrs: "surface_attrs (objectType h [] p) = Inr (ai, aw, ao)"
    and dup: "duplicate h [] p = dup # dups"
    and o0: "listRelatives h [Duplicate p] dup = Some (o0 # os)"
    and conn: "listConnections h [Duplicate p, Parent o0 (surface a), Delete dup, Rename o0 (p @ ''Orig'')]
                 (p @ ai) = Some (plug # src # others)"
    and origin: "origin = rename h [Duplicate p, Parent o0 (surface a), Delete dup] o0 (p @ ''Orig'')"
  shows "\<exists>post. snd (make_uv_pin h a) =
           [Duplicate p, Parent o0 (surface a), Delete dup, Rename o0 (p @ ''Orig''),
            ConnectAttr src (origin @ ai) False,
            ConnectAttr (origin @ aw) (p @ ai) True,
            SetAttr (origin @ ''.intermediateObject'') 1] @ post"
proof -
  from resolve_surface_shapes [OF shapes] attrs p none
  have res: "resolve_surface h (surface a) = Inr (p, None, ai, aw, ao)"
    by simp
  from create_intermediate_rerouted [OF dup o0 conn origin]
  have ens: "ensure_intermediate h (surface a) p None ai aw =
      (Inr origin,
       [Duplicate p, Parent o0 (surface a), Delete dup, Rename o0 (p @ ''Orig''),
        ConnectAttr src (origin @ ai) False,
        ConnectAttr (origin @ aw) (p @ ai) True,
        SetAttr (origin @ ''.intermediateObject'') 1])"
    by (simp add: ensure_intermediate_def)
  from res ens have "make_uv_pin h a =
      create_and_connect h a p origin aw ao
        [Duplicate p, Parent o0 (surface a), Delete dup, Rename o0 (p @ ''Orig''),
         ConnectAttr src (origin @ ai) False,
         ConnectAttr (origin @ aw) (p @ ai) True,
         SetAttr (origin @ ''.intermediateObject'') 1]"
    by (simp add: make_uv_pin_def)
  with create_and_connect_prefix show ?thesis
    by metis
qed

theorem upstream_input_is_rerouted_witness:
  "take 7 (snd (make_uv_pin scene (default_args ''cube'' ''plane''))) =
     [Duplicate ''planeShape'', Parent ''plane1|planeShape'' ''plane'', Delete ''plane1'',
      Rename ''plane1|planeShape'' ''planeShapeOrig'',
      ConnectAttr ''polyPlane1.output'' ''planeShapeOrig.inMesh'' False,
      ConnectAttr ''planeShapeOrig.worldMesh[0]'' ''planeShape.inMesh'' True,
      SetAttr ''planeShapeOrig.intermediateObject'' 1]"
proof -
  let ?a = "default_args ''cube'' ''plane'' :: real pin_args"
  have srf: "surface ?a = ''plane''" by (simp add: default_args_def)
  have shapes: "listRelatives scene [] (surface ?a) = Some (''planeShape'' # [])"
    by (simp add: scene_def default_args_def)
  have none: "find (intermediate scene) (''planeShape'' # []) = None"
    by (simp add: scene_def intermediate_def)
  have p: "''planeShape'' = next_where (\<lambda>s. \<not> intermediate scene s) (''planeShape'' # []) ''planeShape''"
    by (simp add: scene_def next_where_def intermediate_def)
  have attrs: "surface_attrs (objectType scene [] ''planeShape'') = Inr (''.inMesh'', ''.worldMesh[0]'', ''.outMesh'')"
    by (simp add: scene_def surface_attrs_def)
  have dup: "duplicate scene [] ''planeShape'' = ''plane1'' # []"
    by (simp add: scene_def)
  have o0: "listRelatives scene [Duplicate ''planeShape''] ''plane1'' = Some (''plane1|planeShape'' # [])"
    by (simp add: scene_def)
  have conn: "listConnections scene
      [Duplicate ''planeShape'', Parent ''plane1|planeShape'' (surface ?a), Delete ''plane1'',
       Rename ''plane1|planeShape'' (''planeShape'' @ ''Orig'')]
      (''planeShape'' @ ''.inMesh'') = Some (''planeShape.inMesh'' # ''polyPlane1.output'' # [])"
    by (simp add: scene_def)
  have origin: "''planeShapeOrig'' =
      rename scene [Duplicate ''planeShape'', Parent ''plane1|planeShape'' (surface ?a), Delete ''plane1'']
        ''plane1|planeShape'' (''planeShape'' @ ''Orig'')"
    by (simp add: scene_def)
  from upstream_input_is_rerouted [OF shapes none p attrs dup o0 conn origin]
  obtain post where "snd (make_uv_pin scene ?a) =
           [Duplicate ''planeShape'', Parent ''plane1|planeShape'' (surface ?a), Delete ''plane1'',
            Rename ''plane1|planeShape'' (''planeShape'' @ ''Orig''),
            ConnectAttr ''polyPlane1.output'' (''planeShapeOrig'' @ ''.inMesh'') False,
            ConnectAttr (''planeShapeOrig'' @ ''.worldMesh[0]'') (''planeShape'' @ ''.inMesh'') True,
            SetAttr (''planeShapeOrig'' @ ''.intermediateObject'') 1] @ post" ..
  then show ?thesis
    by (simp add: srf)
qed

text \<open>
  C9. When every shape child of a supported surface is flagged intermediate, the first
  shape child is both the active shape (the fallback of \<^verbatim>\<open>next\<close>) and the reference
  shape. The history then starts with the creation of the pin, whose
  \<^verbatim>\<open>deformedGeometry\<close> and \<^verbatim>\<open>originalGeometry\<close> are both fed from that one shape, and
  nothing is duplicated, re-parented, deleted or renamed.
\<close>

theorem all_intermediate_uses_first_shape_twice:
  assumes shapes: "listRelatives h [] (surface a) = Some (s0 # ss)"
    and all: "\<forall>s \<in> set (s0 # ss). intermediate h s"
    and attrs: "surface_attrs (objectType h [] s0) = Inr (ai, aw, ao)"
    and pin: "pin = createNode h [] ''uvPin'' (object_to_pin a @ ''_uvPin'')"
  shows "next_where (\<lambda>s. \<not> intermediate h s) (s0 # ss) s0 = s0 \<and>
         find (intermediate h) (s0 # ss) = Some s0 \<and>
         (\<exists>post. snd (make_uv_pin h a) =
            [CreateNode ''uvPin'' (object_to_pin a @ ''_uvPin''),
             ConnectAttr (s0 @ aw) (pin @ ''.deformedGeometry'') False,
             ConnectAttr (s0 @ ao) (pin @ ''.originalGeometry'') False] @ post \<and>
            (\<forall>c \<in> set post. \<not> restructures c))"
proof -
  from all have primary: "next_where (\<lambda>s. \<not> intermediate h s) (s0 # ss) s0 = s0"
    by (intro next_where_none) simp
  from all have origin: "find (intermediate h) (s0 # ss) = Some s0"
    by (rule find_all)
  from resolve_surface_shapes [OF shapes] primary origin attrs
  have res: "resolve_surface h (surface a) = Inr (s0, Some s0, ai, aw, ao)"
    by simp
  then have run: "make_uv_pin h a = create_and_connect h a s0 s0 aw ao []"
    by (simp add: make_uv_pin_def ensure_intermediate_def)
  have "\<exists>post. snd (create_and_connect h a s0 s0 aw ao []) =
            [CreateNode ''uvPin'' (object_to_pin a @ ''_uvPin''),
             ConnectAttr (s0 @ aw) (pin @ ''.deformedGeometry'') False,
             ConnectAttr (s0 @ ao) (pin @ ''.originalGeometry'') False] @ post \<and>
            (\<forall>c \<in> set post. \<not> restructures c)"
    unfolding pin by (simp add: create_and_connect_def Let_def split: sum.splits)
  with run primary origin show ?thesis by simp
qed

theorem all_intermediate_uses_first_shape_twice_witness:
  "take 3 (snd (make_uv_pin scene (default_args ''cube'' ''ghost''))) =
     [CreateNode ''uvPin'' ''cube_uvPin'',
      ConnectAttr ''ghostShapeOrig.worldMesh[0]'' ''cube_uvPin.deformedGeometry'' False,
      ConnectAttr ''ghostShapeOrig.outMesh'' ''cube_uvPin.originalGeometry'' False] \<and>
   \<not> (\<exists>c. c \<in> set (snd (make_uv_pin scene (default_args ''cube'' ''ghost''))) \<and> restructures c)"
proof -
  let ?a = "default_args ''cube'' ''ghost'' :: real pin_args"
  have obj: "object_to_pin ?a = ''cube''" by (simp add: default_args_def)
  have shapes: "listRelatives scene [] (surface ?a) = Some (''ghostShapeOrig'' # [])"
    by (simp add: scene_def default_args_def)
  have all: "\<forall>s \<in> set (''ghostShapeOrig'' # []). intermediate scene s"
    by (simp add: scene_def intermediate_def)
  have attrs: "surface_attrs (objectType scene [] ''ghostShapeOrig'') = Inr (''.inMesh'', ''.worldMesh[0]'', ''.outMesh'')"
    by (simp add: scene_def surface_attrs_def)
  have pin: "''cube_uvPin'' = createNode scene [] ''uvPin'' (object_to_pin ?a @ ''_uvPin'')"
    by (simp add: scene_def default_args_def)
  from all_intermediate_uses_first_shape_twice [OF shapes all attrs pin]
  obtain post where
    hist: "snd (make_uv_pin scene ?a) =
            [CreateNode ''uvPin'' (object_to_pin ?a @ ''_uvPin''),
             ConnectAttr (''ghostShapeOrig'' @ ''.worldMesh[0]'') (''cube_uvPin'' @ ''.deformedGeometry'') False,
             ConnectAttr (''ghostShapeOrig'' @ ''.outMesh'') (''cube_uvPin'' @ ''.originalGeometry'') False] @ post"
    and post: "\<forall>c \<in> set post. \<not> restructures c"
    by blast
  from hist have "take 3 (snd (make_uv_pin scene ?a)) =
     [CreateNode ''uvPin'' ''cube_uvPin'',
      ConnectAttr ''ghostShapeOrig.worldMesh[0]'' ''cube_uvPin.deformedGeometry'' False,
      ConnectAttr ''ghostShapeOrig.outMesh'' ''cube_uvPin.originalGeometry'' False]"
    by (simp add: obj)
  moreover from hist post have "\<not> (\<exists>c. c \<in> set (snd (make_uv_pin scene ?a)) \<and> restructures c)"
    by auto
  ultimately show ?thesis by simp
qed

text \<open>
  C10. The empty string is none of the six symbols, yet as \<^verbatim>\<open>normal_axis\<close> or
  \<^verbatim>\<open>tangent_axis\<close> it behaves exactly as the omitted argument: the invocation is the
  same in result and history, on success the default is applied (\<^verbatim>\<open>normalAxis\<close> 1,
  \<^verbatim>\<open>tangentAxis\<close> 0), and an invocation whose axis arguments are each omitted or empty
  never ends in a \<^verbatim>\<open>RuntimeError\<close>.
\<close>

theorem empty_axis_counts_as_omitted:
  "'''' \<notin> accepted_axes \<and>
   make_uv_pin h (a\<lparr>normal_axis := Some ''''\<rparr>) = make_uv_pin h (a\<lparr>normal_axis := None\<rparr>) \<and>
   make_uv_pin h (a\<lparr>tangent_axis := Some ''''\<rparr>) = make_uv_pin h (a\<lparr>tangent_axis := None\<rparr>) \<and>
   (normal_axis a = Some '''' \<and> make_uv_pin h a = (Inr pin, hist) \<longrightarrow>
      SetAttr (pin @ ''.normalAxis'') 1 \<in> set hist) \<and>
   (tangent_axis a = Some '''' \<and> make_uv_pin h a = (Inr pin, hist) \<longrightarrow>
      SetAttr (pin @ ''.tangentAxis'') 0 \<in> set hist) \<and>
   ((normal_axis a = None \<or> normal_axis a = Some '''') \<and>
    (tangent_axis a = None \<or> tangent_axis a = Some '''') \<longrightarrow>
      (\<forall>msg. fst (make_uv_pin h a) \<noteq> Inl (RuntimeError msg)))"
proof -
  have "'''' \<notin> accepted_axes"
    by (simp add: accepted_axes_def)
  moreover have "make_uv_pin h (a\<lparr>normal_axis := Some ''''\<rparr>) = make_uv_pin h (a\<lparr>normal_axis := None\<rparr>)"
  proof -
    have "create_and_connect h (a\<lparr>normal_axis := Some ''''\<rparr>) = create_and_connect h (a\<lparr>normal_axis := None\<rparr>)"
      by (simp add: create_and_connect_def normal_axis_enum_def Let_def fun_eq_iff split: sum.splits)
    then show ?thesis
      by (simp add: make_uv_pin_def split: sum.splits prod.splits)
  qed
  moreover have "make_uv_pin h (a\<lparr>tangent_axis := Some ''''\<rparr>) = make_uv_pin h (a\<lparr>tangent_axis := None\<rparr>)"
  proof -
    have "create_and_connect h (a\<lparr>tangent_axis := Some ''''\<rparr>) = create_and_connect h (a\<lparr>tangent_axis := None\<rparr>)"
      by (simp add: create_and_connect_def tangent_axis_enum_def Let_def fun_eq_iff split: sum.splits)
    then show ?thesis
      by (simp add: make_uv_pin_def split: sum.splits prod.splits)
  qed
  moreover have "SetAttr (pin @ ''.normalAxis'') 1 \<in> set hist"
    if "normal_axis a = Some ''''" "make_uv_pin h a = (Inr pin, hist)"
  proof -
    from make_uv_pin_Inr [OF that(2)] obtain p origin aw ao pre where
      "create_and_connect h a p origin aw ao pre = (Inr pin, hist)" by blast
    from create_and_connect_Inr [OF this] that(1) show ?thesis
      by (auto simp: normal_axis_enum_def)
  qed
  moreover have "SetAttr (pin @ ''.tangentAxis'') 0 \<in> set hist"
    if "tangent_axis a = Some ''''" "make_uv_pin h a = (Inr pin, hist)"
  proof -
    from make_uv_pin_Inr [OF that(2)] obtain p origin aw ao pre where
      "create_and_connect h a p origin aw ao pre = (Inr pin, hist)" by blast
    from create_and_connect_Inr [OF this] that(1) show ?thesis
      by (auto simp: tangent_axis_enum_def)
  qed
  moreover have "fst (make_uv_pin h a) \<noteq> Inl (RuntimeError msg)"
    if "normal_axis a = None \<or> normal_axis a = Some ''''"
      "tangent_axis a = None \<or> tangent_axis a = Some ''''" for msg
    using make_uv_pin_RuntimeError [of h a msg] that by auto
  ultimately show ?thesis by blast
qed

theorem empty_axis_counts_as_omitted_witness:
  "make_uv_pin scene ((default_args ''cube'' ''skin'')\<lparr>normal_axis := Some '''', tangent_axis := Some ''''\<rparr>) =
     make_uv_pin scene (default_args ''cube'' ''skin'') \<and>
   fst (make_uv_pin scene
     ((default_args ''cube'' ''skin'')\<lparr>normal_axis := Some '''', tangent_axis := Some ''''\<rparr>)) = Inr ''cube_uvPin'' \<and>
   SetAttr ''cube_uvPin.normalAxis'' 1 \<in> set (snd (make_uv_pin scene
     ((default_args ''cube'' ''skin'')\<lparr>normal_axis := Some '''', tangent_axis := Some ''''\<rparr>))) \<and>
   SetAttr ''cube_uvPin.tangentAxis'' 0 \<in> set (snd (make_uv_pin scene
     ((default_args ''cube'' ''skin'')\<lparr>normal_axis := Some '''', tangent_axis := Some ''''\<rparr>)))"
proof -
  let ?d = "default_args ''cube'' ''skin'' :: real pin_args"
  let ?a = "?d\<lparr>normal_axis := Some '''', tangent_axis := Some ''''\<rparr>"
  have ok: "make_uv_pin scene ?a = (Inr ''cube_uvPin'', snd (make_uv_pin scene ?a))"
    by (simp add: run)
  have args: "normal_axis ?a = Some ''''" "tangent_axis ?a = Some ''''"
    by simp_all
  note fact = empty_axis_counts_as_omitted
    [where h = scene and a = ?a and pin = "''cube_uvPin''" and hist = "snd (make_uv_pin scene ?a)"]
  from fact args ok have n: "SetAttr (''cube_uvPin'' @ ''.normalAxis'') 1 \<in> set (snd (make_uv_pin scene ?a))"
    by blast
  from fact args ok have t: "SetAttr (''cube_uvPin'' @ ''.tangentAxis'') 0 \<in> set (snd (make_uv_pin scene ?a))"
    by blast
  have same: "make_uv_pin scene ?a = make_uv_pin scene ?d"
    by (simp add: run)
  from ok have "fst (make_uv_pin scene ?a) = Inr ''cube_uvPin''"
    by (metis fst_conv)
  with n t same show ?thesis by simp
qed

end
